theory Spec2Isabelle
  imports Complex_Main
begin

section \<open>The HitFilm composite importer (blender_hitfilm_importer.py)\<close>

text \<open>
  Python floats are modelled as the reals: rounding (also the single precision of
  \<open>mathutils.Vector\<close>), infinities and NaN are not part of the model.  Python
  exceptions are values of \<open>py_error\<close>.  Console output (\<open>print\<close>) is left out.
  The source's \<open>root\<close> is called \<open>doc\<close> here, and \<open>Element.find\<close> is
  \<open>find_elem\<close>.
\<close>

datatype py_error =
  AttributeError | TypeError | ValueError | AssertionError | IndexError | ZeroDivisionError

subsection \<open>Unit converters\<close>

definition PixelsPerMM :: real where
  "PixelsPerMM = 2.8352"

text \<open>Python's \<open>/\<close> on floats raises ZeroDivisionError on a zero divisor.\<close>

definition py_truediv :: "real \<Rightarrow> real \<Rightarrow> py_error + real" where
  "py_truediv a b = (if b = 0 then Inl ZeroDivisionError else Inr (a / b))"

definition zoomToLens :: "real \<Rightarrow> real \<Rightarrow> py_error + real" where
  "zoomToLens lensZoomInPixels compWidthInPixels =
     (case py_truediv lensZoomInPixels PixelsPerMM of
        Inl e \<Rightarrow> Inl e
      | Inr lensZoomInMM \<Rightarrow>
         (case py_truediv compWidthInPixels PixelsPerMM of
            Inl e \<Rightarrow> Inl e
          | Inr compWidthInMM \<Rightarrow> py_truediv (36.0 * lensZoomInMM) compWidthInMM))"

subsection \<open>The document: an ElementTree element\<close>

datatype xml = Element (tag: string) (attrib: "(string \<times> string) list")
  (text_of: "string option") (children: "xml list")

text \<open>\<open>elem.get(k)\<close>: the attribute's value, or None.\<close>

definition get_attr :: "xml \<Rightarrow> string \<Rightarrow> string option" where
  "get_attr e k = map_of (attrib e) k"

text \<open>\<open>elem.iter()\<close>: the element and all its descendants, in document order.\<close>

fun iter_all :: "xml \<Rightarrow> xml list" where
  "iter_all (Element t a x cs) = Element t a x cs # concat (map iter_all cs)"

text \<open>
  The paths of the source, as ElementPath reads them.  \<open>.//*T\<close> is tokenised as
  \<open>.\<close>, \<open>//\<close>, \<open>*\<close>, \<open>T\<close>: every descendant of the context element (itself
  excluded), then its children with tag \<open>T\<close>.  A bare tag and \<open>/T\<close> select children.
\<close>

datatype step = DescAny | Child string

fun select_step :: "step \<Rightarrow> xml \<Rightarrow> xml list" where
  "select_step DescAny e = concat (map iter_all (children e))"
| "select_step (Child t) e = filter (\<lambda>c. tag c = t) (children e)"

fun findall :: "step list \<Rightarrow> xml \<Rightarrow> xml list" where
  "findall [] e = [e]"
| "findall (s # ss) e = concat (map (findall ss) (select_step s e))"

definition find_elem :: "step list \<Rightarrow> xml \<Rightarrow> xml option" where
  "find_elem p e = (case findall p e of [] \<Rightarrow> None | x # _ \<Rightarrow> Some x)"

subsection \<open>Library functions the importer calls\<close>

type_synonym vec3 = "real \<times> real \<times> real"
type_synonym mat = "real list list"

text \<open>
  The builtins \<open>int\<close> and \<open>float\<close> on a string (None for ValueError), the matrix of
  \<open>mathutils.Euler(angles, order)\<close> and \<open>bpy_extras.io_utils.axis_conversion\<close> are
  not code of the importer: they are parameters of the model.
\<close>

record pylib =
  py_int :: "string \<Rightarrow> int option"
  py_float :: "string \<Rightarrow> real option"
  Euler_to_matrix :: "vec3 \<Rightarrow> string \<Rightarrow> mat"
  axis_conversion :: "string \<Rightarrow> string \<Rightarrow> string \<Rightarrow> string \<Rightarrow> mat"

definition radians :: "real \<Rightarrow> real" where
  "radians d = d * pi / 180"

text \<open>\<open>Matrix.Translation\<close>, \<open>to_4x4\<close> of a 3x3 matrix and \<open>@\<close>, on lists of rows.\<close>

definition Translation :: "vec3 \<Rightarrow> mat" where
  "Translation v = (case v of (x, y, z) \<Rightarrow>
     [[1, 0, 0, x], [0, 1, 0, y], [0, 0, 1, z], [0, 0, 0, 1]])"

definition to_4x4 :: "mat \<Rightarrow> mat" where
  "to_4x4 m = map (\<lambda>r. take 3 r @ [0]) (take 3 m) @ [[0, 0, 0, 1]]"

definition matmul :: "mat \<Rightarrow> mat \<Rightarrow> mat" where
  "matmul a b = map (\<lambda>r. map (\<lambda>c. sum_list (map2 (*) r c)) (transpose b)) a"

subsection \<open>Host calls\<close>

text \<open>
  Every write to the scene and every operator call of the source is one event, in
  the order the source makes them; an event on an object is on the object the source
  holds at that point (the one created last).
\<close>

datatype event =
    SetResolutionX int
  | SetResolutionY int
  | SetFps int
  | SetFrameEnd nat
  | CameraAdd
  | SetCameraDisplaySize real
  | SetName string
  | FrameSet nat
  | SetLens real
  | KeyframeInsert string nat
  | SetMatrixWorld mat
  | KeyframeInsertMenu string
  | EmptyAdd string vec3
  | PremultiplyMatrixWorld mat
  | DecreaseRotationEulerX real
  | SetEmptyDisplaySize real

datatype status = FINISHED | CANCELLED

subsection \<open>Reading values out of the document\<close>

definition bindE :: "'e + 'a \<Rightarrow> ('a \<Rightarrow> 'e + 'b) \<Rightarrow> 'e + 'b" where
  "bindE m f = (case m of Inl e \<Rightarrow> Inl e | Inr a \<Rightarrow> f a)"

fun mapE :: "('a \<Rightarrow> 'e + 'b) \<Rightarrow> 'a list \<Rightarrow> 'e + 'b list" where
  "mapE f [] = Inr []"
| "mapE f (x # xs) = bindE (f x) (\<lambda>y. bindE (mapE f xs) (\<lambda>ys. Inr (y # ys)))"

text \<open>
  \<open>int(node.find(t).text)\<close>: \<open>find\<close> or \<open>text\<close> on None is an AttributeError,
  \<open>int(None)\<close> a TypeError, an unreadable string a ValueError.
\<close>

definition read_int_child :: "pylib \<Rightarrow> xml option \<Rightarrow> string \<Rightarrow> py_error + int" where
  "read_int_child lib node t =
     (case node of None \<Rightarrow> Inl AttributeError
      | Some n \<Rightarrow>
         (case find_elem [Child t] n of None \<Rightarrow> Inl AttributeError
          | Some c \<Rightarrow>
             (case text_of c of None \<Rightarrow> Inl TypeError
              | Some s \<Rightarrow>
                 (case py_int lib s of None \<Rightarrow> Inl ValueError | Some v \<Rightarrow> Inr v))))"

text \<open>\<open>float(s)\<close> for an optional string \<open>s\<close>, and \<open>float(node.get(k))\<close>.\<close>

definition float_of :: "pylib \<Rightarrow> string option \<Rightarrow> py_error + real" where
  "float_of lib s =
     (case s of None \<Rightarrow> Inl TypeError
      | Some t \<Rightarrow> (case py_float lib t of None \<Rightarrow> Inl ValueError | Some v \<Rightarrow> Inr v))"

definition read_float :: "pylib \<Rightarrow> xml option \<Rightarrow> string \<Rightarrow> py_error + real" where
  "read_float lib node k =
     (case node of None \<Rightarrow> Inl AttributeError | Some n \<Rightarrow> float_of lib (get_attr n k))"

definition read_vec3 :: "pylib \<Rightarrow> xml option \<Rightarrow> py_error + vec3" where
  "read_vec3 lib node =
     bindE (read_float lib node ''X'') (\<lambda>x.
     bindE (read_float lib node ''Y'') (\<lambda>y.
     bindE (read_float lib node ''Z'') (\<lambda>z. Inr (x, y, z))))"

text \<open>Lines 66-69: the three settings, read before anything is written.\<close>

definition read_settings :: "pylib \<Rightarrow> xml \<Rightarrow> py_error + (int \<times> int \<times> int)" where
  "read_settings lib doc =
     (let avSettingsNode = find_elem [DescAny, Child ''AudioVideoSettings''] doc in
      bindE (read_int_child lib avSettingsNode ''Width'') (\<lambda>width.
      bindE (read_int_child lib avSettingsNode ''Height'') (\<lambda>height.
      bindE (read_int_child lib avSettingsNode ''FrameRate'') (\<lambda>frameRate.
        Inr (width, height, frameRate)))))"

text \<open>
  Lines 86-111.  A channel is present when the camera has an \<open>Animation\<close> element for
  it; its keys are the children of the first one.
\<close>

definition channel_keys :: "string \<Rightarrow> xml \<Rightarrow> xml list option" where
  "channel_keys name cameraNode =
     (case findall [DescAny, Child name, Child ''Animation''] cameraNode of
        [] \<Rightarrow> None
      | anim # _ \<Rightarrow> Some (children anim))"

definition position_key :: "pylib \<Rightarrow> xml \<Rightarrow> py_error + (string option \<times> vec3)" where
  "position_key lib key =
     bindE (read_vec3 lib (find_elem [DescAny, Child ''FXPoint3_32f''] key))
       (\<lambda>p. Inr (get_attr key ''Time'', p))"

definition rotation_key :: "pylib \<Rightarrow> xml \<Rightarrow> py_error + vec3" where
  "rotation_key lib key = read_vec3 lib (find_elem [DescAny, Child ''Orientation3D''] key)"

definition zoom_key :: "pylib \<Rightarrow> xml \<Rightarrow> py_error + real" where
  "zoom_key lib key =
     (case find_elem [Child ''Value'', Child ''float''] key of
        None \<Rightarrow> Inl AttributeError
      | Some v \<Rightarrow> float_of lib (text_of v))"

definition parse_camera ::
  "pylib \<Rightarrow> xml \<Rightarrow> py_error + (string option list \<times> vec3 list \<times> vec3 list \<times> real list)" where
  "parse_camera lib cameraNode =
     bindE (case channel_keys ''position'' cameraNode of
              None \<Rightarrow> Inr []
            | Some posKeys \<Rightarrow> mapE (position_key lib) posKeys) (\<lambda>pos.
     let timeKeys = map fst pos; camPositions = map snd pos in
     bindE (case channel_keys ''orientation'' cameraNode of
              None \<Rightarrow> Inr []
            | Some rotationKeys \<Rightarrow>
                if length timeKeys = length rotationKeys
                then mapE (rotation_key lib) rotationKeys
                else Inl AssertionError) (\<lambda>camRotations.
     bindE (case channel_keys ''zoom'' cameraNode of
              None \<Rightarrow> Inr []
            | Some zoomKeys \<Rightarrow>
                if length timeKeys = length zoomKeys
                then mapE (zoom_key lib) zoomKeys
                else Inl AssertionError) (\<lambda>camZoomVals.
       Inr (timeKeys, camPositions, camRotations, camZoomVals))))"

subsection \<open>The import\<close>

text \<open>A loop whose body makes host calls and may raise: the calls made so far stay.\<close>

fun for_each :: "('a \<Rightarrow> event list \<times> py_error option) \<Rightarrow> 'a list
    \<Rightarrow> event list \<times> py_error option" where
  "for_each body [] = ([], None)"
| "for_each body (x # xs) =
     (case body x of
        (tr, Some e) \<Rightarrow> (tr, Some e)
      | (tr, None) \<Rightarrow> (case for_each body xs of (tr', r) \<Rightarrow> (tr @ tr', r)))"

text \<open>\<open>xs[i]\<close> for an index that is not negative.\<close>

definition py_index :: "'a list \<Rightarrow> nat \<Rightarrow> py_error + 'a" where
  "py_index xs i = (if i < length xs then Inr (xs ! i) else Inl IndexError)"

definition blenderScale :: real where
  "blenderScale = (1.0 / 1000.0) * PixelsPerMM"

definition scale_vec :: "vec3 \<Rightarrow> vec3" where
  "scale_vec v = (case v of (x, y, z) \<Rightarrow> (blenderScale * x, blenderScale * y, blenderScale * z))"

definition mToZUp :: "pylib \<Rightarrow> mat" where
  "mToZUp lib = to_4x4 (axis_conversion lib ''Z'' ''Y'' ''-Y'' ''Z'')"

text \<open>Lines 129-150: the body of the per-frame loop.\<close>

definition camera_frame ::
  "pylib \<Rightarrow> int \<Rightarrow> vec3 list \<Rightarrow> vec3 list \<Rightarrow> real list \<Rightarrow> nat
    \<Rightarrow> event list \<times> py_error option" where
  "camera_frame lib width camPositions camRotations camZoomVals i =
     (let tr0 = [FrameSet i] in
      case py_index camZoomVals i of
        Inl e \<Rightarrow> (tr0, Some e)
      | Inr zoom \<Rightarrow>
     (case zoomToLens zoom (real_of_int width) of
        Inl e \<Rightarrow> (tr0, Some e)
      | Inr lens \<Rightarrow>
     (let tr1 = tr0 @ [SetLens lens, KeyframeInsert ''lens'' i] in
      case py_index camRotations i of
        Inl e \<Rightarrow> (tr1, Some e)
      | Inr orientation \<Rightarrow>
     (let eul = (case orientation of (x, y, z) \<Rightarrow> (- radians x, - radians y, - radians z)) in
      case py_index camPositions i of
        Inl e \<Rightarrow> (tr1, Some e)
      | Inr p \<Rightarrow>
     (let location = scale_vec p;
          mat_rot = Euler_to_matrix lib eul ''ZYX'';
          mat_loc = Translation location;
          mat = matmul mat_loc (to_4x4 mat_rot)
      in (tr1 @ [SetMatrixWorld (matmul (mToZUp lib) mat),
                 KeyframeInsertMenu ''BUILTIN_KSI_LocRot''], None))))))"

text \<open>Lines 157-167: the body of the loop over the anchor layers.\<close>

definition anchor_body :: "pylib \<Rightarrow> xml \<Rightarrow> event list \<times> py_error option" where
  "anchor_body lib anchorNode =
     (let anchorName = find_elem [DescAny, Child ''Name''] anchorNode;
          positionNode = find_elem [DescAny, Child ''position'', Child ''Default'', Child ''p3'']
                           anchorNode
      in case read_vec3 lib positionNode of
           Inl e \<Rightarrow> ([], Some e)
         | Inr vec \<Rightarrow>
        (let tr0 = [EmptyAdd ''ARROWS'' (scale_vec vec)] in
         case anchorName of
           None \<Rightarrow> (tr0, Some AttributeError)
         | Some nm \<Rightarrow>
        (case text_of nm of
           None \<Rightarrow> (tr0, Some TypeError)
         | Some s \<Rightarrow>
             (tr0 @ [SetName s, PremultiplyMatrixWorld (mToZUp lib),
                     DecreaseRotationEulerX (radians 90), SetEmptyDisplaySize 0.1], None))))"

definition import_hitfilm_composite :: "pylib \<Rightarrow> xml \<Rightarrow> event list \<times> (py_error + status)" where
  "import_hitfilm_composite lib doc =
     (case read_settings lib doc of
        Inl e \<Rightarrow> ([], Inl e)
      | Inr (width, height, frameRate) \<Rightarrow>
     (let tr1 = [SetResolutionX width, SetResolutionY height, SetFps frameRate] in
      case find_elem [DescAny, Child ''CameraLayer''] doc of
        None \<Rightarrow> (tr1, Inr CANCELLED)
      | Some cameraNode \<Rightarrow>
     (case parse_camera lib cameraNode of
        Inl e \<Rightarrow> (tr1, Inl e)
      | Inr (timeKeys, camPositions, camRotations, camZoomVals) \<Rightarrow>
     (let tr2 = tr1 @ [SetFrameEnd (length timeKeys), CameraAdd, SetCameraDisplaySize 0.2,
                       SetName ''ARCamera'']
      in case for_each (camera_frame lib width camPositions camRotations camZoomVals)
                [0 ..< length timeKeys] of
           (tr3, Some e) \<Rightarrow> (tr2 @ tr3, Inl e)
         | (tr3, None) \<Rightarrow>
        (let tr4 = tr2 @ tr3 @ [FrameSet 0] in
         case for_each (anchor_body lib) (findall [DescAny, Child ''PointLayer''] doc) of
           (tr5, Some e) \<Rightarrow> (tr4 @ tr5, Inl e)
         | (tr5, None) \<Rightarrow> (tr4 @ tr5, Inr FINISHED))))))"

subsection \<open>Observations on the host calls and on documents\<close>

fun is_marker :: "event \<Rightarrow> bool" where
  "is_marker (EmptyAdd ty loc) = True"
| "is_marker ev = False"

fun matrix_written :: "event \<Rightarrow> mat list" where
  "matrix_written (SetMatrixWorld m) = [m]"
| "matrix_written ev = []"


definition matrix_writes :: "event list \<Rightarrow> mat list" where
  "matrix_writes tr = concat (map matrix_written tr)"

text \<open>The document with the value of every \<open>Time\<close> attribute erased.\<close>

definition blank_attr :: "string \<times> string \<Rightarrow> string \<times> string" where
  "blank_attr kv = (if fst kv = ''Time'' then (fst kv, []) else kv)"

fun blank_time :: "xml \<Rightarrow> xml" where
  "blank_time (Element t a x cs) = Element t (map blank_attr a) x (map blank_time cs)"

subsection \<open>A concrete library and concrete documents\<close>

text \<open>
  Decimal numerals \<open>[-]digits[.digits]\<close>, a fragment of what \<open>int\<close> and \<open>float\<close>
  read, and axis rotations standing for the Euler matrix: the instance of the
  library at which the examples below are evaluated.
\<close>

definition digit_of :: "char \<Rightarrow> nat option" where
  "digit_of c =
     (let n = (of_char c :: nat) in if 48 \<le> n \<and> n \<le> 57 then Some (n - 48) else None)"

fun dec_digits :: "nat \<Rightarrow> string \<Rightarrow> nat option" where
  "dec_digits acc [] = Some acc"
| "dec_digits acc (c # cs) =
     (case digit_of c of None \<Rightarrow> None | Some d \<Rightarrow> dec_digits (10 * acc + d) cs)"

definition dec_nat :: "string \<Rightarrow> nat option" where
  "dec_nat s = (if s = [] then None else dec_digits 0 s)"

definition dec_int :: "string \<Rightarrow> int option" where
  "dec_int s = (case s of
      [] \<Rightarrow> None
    | c # r \<Rightarrow> if c = CHR ''-'' then map_option (\<lambda>n. - int n) (dec_nat r)
               else map_option int (dec_nat s))"

definition dec_unsigned :: "string \<Rightarrow> real option" where
  "dec_unsigned s =
     (let ip = takeWhile (\<lambda>c. c \<noteq> CHR ''.'') s; r = dropWhile (\<lambda>c. c \<noteq> CHR ''.'') s in
      case r of
        [] \<Rightarrow> map_option real (dec_nat ip)
      | _ # fp \<Rightarrow>
          (case (dec_nat ip, dec_nat fp) of
             (Some a, Some b) \<Rightarrow> Some (real a + real b / 10 ^ length fp)
           | _ \<Rightarrow> None))"

definition dec_float :: "string \<Rightarrow> real option" where
  "dec_float s = (case s of
      [] \<Rightarrow> None
    | c # r \<Rightarrow> if c = CHR ''-'' then map_option uminus (dec_unsigned r) else dec_unsigned s)"

definition rot_x :: "real \<Rightarrow> mat" where
  "rot_x a = [[1, 0, 0], [0, cos a, - sin a], [0, sin a, cos a]]"

definition rot_y :: "real \<Rightarrow> mat" where
  "rot_y a = [[cos a, 0, sin a], [0, 1, 0], [- sin a, 0, cos a]]"

definition rot_z :: "real \<Rightarrow> mat" where
  "rot_z a = [[cos a, - sin a, 0], [sin a, cos a, 0], [0, 0, 1]]"

definition axis_rotations :: "vec3 \<Rightarrow> string \<Rightarrow> mat" where
  "axis_rotations e order = (case e of (x, y, z) \<Rightarrow>
     if order = ''ZYX'' then matmul (rot_x x) (matmul (rot_y y) (rot_z z))
     else matmul (rot_z z) (matmul (rot_y y) (rot_x x)))"

definition y_up_to_z_up :: "string \<Rightarrow> string \<Rightarrow> string \<Rightarrow> string \<Rightarrow> mat" where
  "y_up_to_z_up from_forward from_up to_forward to_up =
     [[1, 0, 0], [0, 0, -1], [0, 1, 0]]"

definition example_lib :: pylib where
  "example_lib = \<lparr> py_int = dec_int, py_float = dec_float,
     Euler_to_matrix = axis_rotations, axis_conversion = y_up_to_z_up \<rparr>"

definition el :: "string \<Rightarrow> xml list \<Rightarrow> xml" where
  "el t cs = Element t [] None cs"

definition leaf :: "string \<Rightarrow> string \<Rightarrow> xml" where
  "leaf t s = Element t [] (Some s) []"

definition xyz :: "string \<Rightarrow> string \<Rightarrow> string \<Rightarrow> string \<Rightarrow> xml" where
  "xyz t x y z = Element t [(''X'', x), (''Y'', y), (''Z'', z)] None []"

definition settings_block :: "string \<Rightarrow> string \<Rightarrow> string \<Rightarrow> xml" where
  "settings_block w h f =
     el ''AudioVideoSettings'' [leaf ''Width'' w, leaf ''Height'' h, leaf ''FrameRate'' f]"

definition point_layer :: "string \<Rightarrow> string \<Rightarrow> string \<Rightarrow> string \<Rightarrow> xml" where
  "point_layer name x y z =
     el ''PointLayer'' [el ''LayerBase'' [leaf ''Name'' name,
       el ''PropertyManager'' [el ''position'' [el ''Default'' [xyz ''p3'' x y z]]]]]"

definition mk_pos_key :: "string \<Rightarrow> string \<Rightarrow> string \<Rightarrow> string \<Rightarrow> xml" where
  "mk_pos_key t x y z =
     Element ''Key'' [(''Type'', ''0''), (''Time'', t)] None
       [el ''Value'' [xyz ''FXPoint3_32f'' x y z]]"

definition mk_rot_key :: "string \<Rightarrow> string \<Rightarrow> string \<Rightarrow> string \<Rightarrow> xml" where
  "mk_rot_key t x y z =
     Element ''Key'' [(''Type'', ''0''), (''Time'', t)] None
       [el ''Value'' [xyz ''Orientation3D'' x y z]]"

definition mk_zoom_key :: "string \<Rightarrow> string \<Rightarrow> xml" where
  "mk_zoom_key t v =
     Element ''Key'' [(''Type'', ''0''), (''Time'', t)] None [el ''Value'' [leaf ''float'' v]]"

definition channel :: "string \<Rightarrow> xml list \<Rightarrow> xml" where
  "channel name keys = el name [el ''Animation'' keys]"

definition camera_layer :: "xml list \<Rightarrow> xml" where
  "camera_layer channels = el ''CameraLayer'' [el ''LayerBase'' [el ''PropertyManager'' channels]]"

definition composite :: "string \<Rightarrow> string \<Rightarrow> string \<Rightarrow> xml list \<Rightarrow> xml" where
  "composite w h f layers =
     el ''BiffCompositeShot'' [el ''CompositionAsset'' [settings_block w h f, el ''Layers'' layers]]"

text \<open>No camera layer, two point layers.\<close>

definition doc_two_anchors :: xml where
  "doc_two_anchors = composite ''1920'' ''1080'' ''30''
     [point_layer ''Anchor 1'' ''1000'' ''0'' ''0'', point_layer ''Anchor 2'' ''0'' ''500'' ''-250'']"

text \<open>A camera with three channels of two keys each, and one point layer.\<close>

definition cam_full :: xml where
  "cam_full = camera_layer
     [channel ''position'' [mk_pos_key ''0'' ''0'' ''0'' ''0'', mk_pos_key ''333'' ''1000'' ''0'' ''0''],
      channel ''orientation'' [mk_rot_key ''0'' ''0'' ''0'' ''0'', mk_rot_key ''333'' ''0'' ''0'' ''0''],
      channel ''zoom'' [mk_zoom_key ''0'' ''100'', mk_zoom_key ''333'' ''100'']]"

definition doc_full :: xml where
  "doc_full = composite ''1920'' ''1080'' ''30'' [cam_full, point_layer ''Anchor 1'' ''1000'' ''0'' ''0'']"

text \<open>The same document with other \<open>Time\<close> values.\<close>

definition doc_full_retimed :: xml where
  "doc_full_retimed = composite ''1920'' ''1080'' ''30''
     [camera_layer
        [channel ''position'' [mk_pos_key ''7'' ''0'' ''0'' ''0'', mk_pos_key ''7'' ''1000'' ''0'' ''0''],
         channel ''orientation'' [mk_rot_key ''9'' ''0'' ''0'' ''0'', mk_rot_key ''1'' ''0'' ''0'' ''0''],
         channel ''zoom'' [mk_zoom_key ''x'' ''100'', mk_zoom_key ''y'' ''100'']],
      point_layer ''Anchor 1'' ''1000'' ''0'' ''0'']"

text \<open>Cameras with an absent channel.\<close>

definition cam_rotation_only :: xml where
  "cam_rotation_only = camera_layer [channel ''orientation'' [mk_rot_key ''0'' ''10'' ''20'' ''30'']]"

definition cam_no_position :: xml where
  "cam_no_position = camera_layer
     [channel ''orientation'' [mk_rot_key ''0'' ''0'' ''0'' ''0'', mk_rot_key ''1'' ''0'' ''0'' ''0''],
      channel ''zoom'' [mk_zoom_key ''0'' ''100'', mk_zoom_key ''1'' ''100'']]"

definition cam_no_zoom :: xml where
  "cam_no_zoom = camera_layer
     [channel ''position'' [mk_pos_key ''0'' ''1000'' ''0'' ''0''],
      channel ''orientation'' [mk_rot_key ''0'' ''0'' ''0'' ''0'']]"

definition cam_short_zoom :: xml where
  "cam_short_zoom = camera_layer
     [channel ''position'' [mk_pos_key ''0'' ''0'' ''0'' ''0'', mk_pos_key ''1'' ''0'' ''0'' ''0''],
      channel ''orientation'' [mk_rot_key ''0'' ''0'' ''0'' ''0'', mk_rot_key ''1'' ''0'' ''0'' ''0''],
      channel ''zoom'' [mk_zoom_key ''0'' ''100'']]"


definition doc_no_position :: xml where
  "doc_no_position = composite ''1920'' ''1080'' ''30'' [cam_no_position]"

definition doc_short_zoom :: xml where
  "doc_short_zoom = composite ''1920'' ''1080'' ''30'' [cam_short_zoom]"

text \<open>
  A point layer \<open>a\<close> is well formed for a name and a position when its position
  element reads as that position and its \<open>Name\<close> element has that text.
\<close>

definition well_formed_anchor :: "pylib \<Rightarrow> xml \<Rightarrow> string \<times> vec3 \<Rightarrow> bool" where
  "well_formed_anchor lib a sv =
     (read_vec3 lib (find_elem [DescAny, Child ''position'', Child ''Default'', Child ''p3''] a)
        = Inr (snd sv) \<and>
      map_option text_of (find_elem [DescAny, Child ''Name''] a) = Some (Some (fst sv)))"

text \<open>
  The number of position keys of a camera (none when the channel is absent), whether a
  channel is absent or has that many keys, and whether every key of the present
  channels can be read.
\<close>

definition position_count :: "xml \<Rightarrow> nat" where
  "position_count cameraNode =
     (case channel_keys ''position'' cameraNode of None \<Rightarrow> 0 | Some ks \<Rightarrow> length ks)"

definition agrees_with_position :: "string \<Rightarrow> xml \<Rightarrow> bool" where
  "agrees_with_position name cameraNode =
     (case channel_keys name cameraNode of
        None \<Rightarrow> True
      | Some ks \<Rightarrow> length ks = position_count cameraNode)"

definition is_ok :: "'e + 'a \<Rightarrow> bool" where
  "is_ok r = (case r of Inl e \<Rightarrow> False | Inr v \<Rightarrow> True)"

definition keys_readable :: "pylib \<Rightarrow> xml \<Rightarrow> bool" where
  "keys_readable lib cameraNode =
     ((case channel_keys ''position'' cameraNode of
         None \<Rightarrow> True | Some ks \<Rightarrow> is_ok (mapE (position_key lib) ks)) \<and>
      (case channel_keys ''orientation'' cameraNode of
         None \<Rightarrow> True | Some ks \<Rightarrow> is_ok (mapE (rotation_key lib) ks)) \<and>
      (case channel_keys ''zoom'' cameraNode of
         None \<Rightarrow> True | Some ks \<Rightarrow> is_ok (mapE (zoom_key lib) ks)))"

section \<open>Properties\<close>

lemma PixelsPerMM_pos: "0 < PixelsPerMM"
  by (simp add: PixelsPerMM_def)

lemma zoomToLens_ratio: "w \<noteq> 0 \<Longrightarrow> zoomToLens z w = Inr (36 * z / w)"
  using PixelsPerMM_pos by (simp add: zoomToLens_def py_truediv_def)

subsection \<open>Evaluation on concrete documents\<close>

lemmas example_defs = example_lib_def dec_int_def dec_float_def dec_unsigned_def dec_nat_def
  digit_of_def el_def leaf_def xyz_def settings_block_def point_layer_def mk_pos_key_def
  mk_rot_key_def mk_zoom_key_def channel_def camera_layer_def composite_def axis_rotations_def
  y_up_to_z_up_def rot_x_def rot_y_def rot_z_def

lemmas import_defs = import_hitfilm_composite_def read_settings_def read_int_child_def
  find_elem_def bindE_def parse_camera_def channel_keys_def position_key_def rotation_key_def
  zoom_key_def read_vec3_def read_float_def float_of_def get_attr_def camera_frame_def
  anchor_body_def py_index_def scale_vec_def blenderScale_def mToZUp_def to_4x4_def matmul_def
  Translation_def zoomToLens_def py_truediv_def PixelsPerMM_def

subsection \<open>Loops\<close>

lemma for_each_all_ok:
  "(\<And>x. x \<in> set xs \<Longrightarrow> snd (body x) = None) \<Longrightarrow>
   for_each body xs = (concat (map (\<lambda>x. fst (body x)) xs), None)"
proof (induction xs)
  case Nil
  show ?case by simp
next
  case (Cons x xs)
  have hd: "snd (body x) = None" using Cons.prems by simp
  have tl: "for_each body xs = (concat (map (\<lambda>x. fst (body x)) xs), None)"
    using Cons by simp
  obtain tr where b: "body x = (tr, None)"
    using hd by (cases "body x") auto
  show ?case by (simp add: b tl)
qed


lemma matrix_writes_Nil: "matrix_writes [] = []"
  by (simp add: matrix_writes_def)

lemma matrix_writes_Cons: "matrix_writes (e # es) = matrix_written e @ matrix_writes es"
  by (simp add: matrix_writes_def)

lemma matrix_writes_append: "matrix_writes (xs @ ys) = matrix_writes xs @ matrix_writes ys"
  by (simp add: matrix_writes_def)

lemma matrix_writes_concat_map:
  "matrix_writes (concat (map f xs)) = concat (map (\<lambda>x. matrix_writes (f x)) xs)"
  by (induction xs) (simp_all add: matrix_writes_def)

lemma camera_frame_ok:
  assumes "i < length camZoomVals" "i < length camRotations" "i < length camPositions"
    and "width \<noteq> 0"
  shows "camera_frame lib width camPositions camRotations camZoomVals i =
     ([FrameSet i, SetLens (36 * (camZoomVals ! i) / real_of_int width), KeyframeInsert ''lens'' i,
       SetMatrixWorld (matmul (mToZUp lib)
          (matmul (Translation (scale_vec (camPositions ! i)))
             (to_4x4 (Euler_to_matrix lib
                (case camRotations ! i of (x, y, z) \<Rightarrow> (- radians x, - radians y, - radians z))
                ''ZYX'')))),
       KeyframeInsertMenu ''BUILTIN_KSI_LocRot''], None)"
  using assms by (simp add: camera_frame_def py_index_def zoomToLens_ratio)

lemma camera_loop_ok:
  assumes "N \<le> length camZoomVals" "N \<le> length camRotations" "N \<le> length camPositions"
    and "width \<noteq> 0"
  shows "for_each (camera_frame lib width camPositions camRotations camZoomVals) [0..<N] =
     (concat (map (\<lambda>i.
       [FrameSet i, SetLens (36 * (camZoomVals ! i) / real_of_int width), KeyframeInsert ''lens'' i,
        SetMatrixWorld (matmul (mToZUp lib)
          (matmul (Translation (scale_vec (camPositions ! i)))
             (to_4x4 (Euler_to_matrix lib
                (case camRotations ! i of (x, y, z) \<Rightarrow> (- radians x, - radians y, - radians z))
                ''ZYX'')))),
        KeyframeInsertMenu ''BUILTIN_KSI_LocRot'']) [0..<N]), None)"
proof -
  have ok: "\<And>i. i \<in> set [0..<N] \<Longrightarrow>
      camera_frame lib width camPositions camRotations camZoomVals i =
     ([FrameSet i, SetLens (36 * (camZoomVals ! i) / real_of_int width), KeyframeInsert ''lens'' i,
       SetMatrixWorld (matmul (mToZUp lib)
          (matmul (Translation (scale_vec (camPositions ! i)))
             (to_4x4 (Euler_to_matrix lib
                (case camRotations ! i of (x, y, z) \<Rightarrow> (- radians x, - radians y, - radians z))
                ''ZYX'')))),
       KeyframeInsertMenu ''BUILTIN_KSI_LocRot''], None)"
    using assms by (intro camera_frame_ok) auto
  have "for_each (camera_frame lib width camPositions camRotations camZoomVals) [0..<N] =
      (concat (map (\<lambda>i. fst (camera_frame lib width camPositions camRotations camZoomVals i))
         [0..<N]), None)"
    by (rule for_each_all_ok) (simp add: ok)
  also have "map (\<lambda>i. fst (camera_frame lib width camPositions camRotations camZoomVals i)) [0..<N]
     = map (\<lambda>i.
       [FrameSet i, SetLens (36 * (camZoomVals ! i) / real_of_int width), KeyframeInsert ''lens'' i,
        SetMatrixWorld (matmul (mToZUp lib)
          (matmul (Translation (scale_vec (camPositions ! i)))
             (to_4x4 (Euler_to_matrix lib
                (case camRotations ! i of (x, y, z) \<Rightarrow> (- radians x, - radians y, - radians z))
                ''ZYX'')))),
        KeyframeInsertMenu ''BUILTIN_KSI_LocRot'']) [0..<N]"
    by (rule map_cong) (simp_all add: ok)
  finally show ?thesis .
qed

subsection \<open>Unit converters\<close>

text \<open>
  C7. For every nonzero \<open>compWidthInPixels\<close>, \<open>zoomToLens\<close> returns
  \<open>36.0 * (lensZoomInPixels / PixelsPerMM) / (compWidthInPixels / PixelsPerMM)\<close>,
  where \<open>PixelsPerMM\<close> is the constant 2.8352.
\<close>

theorem zoomToLens_formula:
  "compWidthInPixels \<noteq> 0 \<Longrightarrow>
     zoomToLens lensZoomInPixels compWidthInPixels =
       Inr (36.0 * (lensZoomInPixels / PixelsPerMM) / (compWidthInPixels / PixelsPerMM))
     \<and> PixelsPerMM = 2.8352"
proof -
  assume w: "compWidthInPixels \<noteq> 0"
  have "compWidthInPixels / PixelsPerMM \<noteq> 0"
    using w PixelsPerMM_pos by simp
  then show ?thesis
    using PixelsPerMM_pos by (simp add: zoomToLens_def py_truediv_def PixelsPerMM_def)
qed

theorem zoomToLens_formula_witness:
  "(1920::real) \<noteq> 0 \<and>
   zoomToLens 100 1920 = Inr (36.0 * (100 / PixelsPerMM) / (1920 / PixelsPerMM)) \<and>
   PixelsPerMM = 2.8352"
  using zoomToLens_formula [of 1920 100] by simp

text \<open>
  C8. For a fixed positive zoom, \<open>zoomToLens\<close> is decreasing in the (positive) width;
  for a fixed positive width it is increasing in the zoom; and
  \<open>zoomToLens (2.8352 * 36) (2.8352 * 36)\<close> is exactly 36.
\<close>

theorem zoomToLens_monotone:
  "(0 < z \<and> 0 < w1 \<and> w1 < w2 \<longrightarrow>
      (\<exists>a b. zoomToLens z w1 = Inr a \<and> zoomToLens z w2 = Inr b \<and> b < a)) \<and>
   (0 < w \<and> z1 < z2 \<longrightarrow>
      (\<exists>a b. zoomToLens z1 w = Inr a \<and> zoomToLens z2 w = Inr b \<and> a < b)) \<and>
   zoomToLens (2.8352 * 36) (2.8352 * 36) = Inr 36.0"
proof (intro conjI impI)
  assume h: "0 < z \<and> 0 < w1 \<and> w1 < w2"
  then have "36 * z / w2 < 36 * z / w1"
    by (simp add: frac_less2)
  with h show "\<exists>a b. zoomToLens z w1 = Inr a \<and> zoomToLens z w2 = Inr b \<and> b < a"
    by (simp add: zoomToLens_ratio)
next
  assume h: "0 < w \<and> z1 < z2"
  then have "36 * z1 / w < 36 * z2 / w"
    by (simp add: divide_strict_right_mono)
  with h show "\<exists>a b. zoomToLens z1 w = Inr a \<and> zoomToLens z2 w = Inr b \<and> a < b"
    by (simp add: zoomToLens_ratio)
next
  show "zoomToLens (2.8352 * 36) (2.8352 * 36) = Inr 36.0"
    by (simp add: zoomToLens_ratio)
qed

theorem zoomToLens_monotone_witness:
  "(0::real) < 100 \<and> (0::real) < 1920 \<and> (1920::real) < 3840 \<and>
   (\<exists>a b. zoomToLens 100 1920 = Inr a \<and> zoomToLens 100 3840 = Inr b \<and> b < a) \<and>
   (100::real) < 200 \<and>
   (\<exists>a b. zoomToLens 100 1920 = Inr a \<and> zoomToLens 200 1920 = Inr b \<and> a < b)"
  using zoomToLens_monotone [of 100 1920 3840 1920 100 200] by simp

subsection \<open>The per-frame loop\<close>




text \<open>
  C5. The matrices written to the camera, frame by frame: the Euler angles are the
  negated rotation components in radians, the rotation matrix is built with order
  \<open>ZYX\<close>, the translation by the position scaled by \<open>(1/1000) * PixelsPerMM\<close> is
  multiplied on its left, and the basis change (forward Z, up Y to forward -Y, up Z) on
  the left of that.
\<close>

theorem camera_world_transform:
  assumes "N \<le> length camZoomVals" and "N \<le> length camRotations"
    and "N \<le> length camPositions" and "width \<noteq> 0"
  shows "matrix_writes
      (fst (for_each (camera_frame lib width camPositions camRotations camZoomVals) [0..<N])) =
    map (\<lambda>i.
      matmul (to_4x4 (axis_conversion lib ''Z'' ''Y'' ''-Y'' ''Z''))
        (matmul
          (Translation (case camPositions ! i of (x, y, z) \<Rightarrow>
             ((1 / 1000) * PixelsPerMM * x, (1 / 1000) * PixelsPerMM * y,
              (1 / 1000) * PixelsPerMM * z)))
          (to_4x4 (Euler_to_matrix lib
             (case camRotations ! i of (x, y, z) \<Rightarrow>
                (- (x * pi / 180), - (y * pi / 180), - (z * pi / 180)))
             ''ZYX'')))) [0..<N]"
  by (simp add: camera_loop_ok [OF assms] matrix_writes_concat_map matrix_writes_Nil
      matrix_writes_Cons mToZUp_def scale_vec_def blenderScale_def radians_def)

theorem camera_world_transform_witness:
  "(1::nat) \<le> length [100 :: real] \<and> (1::nat) \<le> length [(0, 0, 0) :: vec3] \<and>
   (1::nat) \<le> length [(1000, 0, 0) :: vec3] \<and> (1920::int) \<noteq> 0 \<and>
   matrix_writes (fst (for_each (camera_frame example_lib 1920 [(1000, 0, 0)] [(0, 0, 0)] [100])
      [0..<1])) =
   [[[1, 0, 0, 2.8352], [0, 0, -1, 0], [0, 1, 0, 0], [0, 0, 0, 1]]]"
  using camera_world_transform [of 1 "[100]" "[(0, 0, 0)]" "[(1000, 0, 0)]" 1920 example_lib]
  by (simp add: example_defs to_4x4_def matmul_def Translation_def PixelsPerMM_def)

subsection \<open>Camera presence, settings and anchors\<close>

lemma for_each_filter_none:
  "(\<And>x. filter P (fst (body x)) = []) \<Longrightarrow> filter P (fst (for_each body xs)) = []"
proof (induction xs)
  case Nil
  show ?case by simp
next
  case (Cons x xs)
  have a: "filter P (fst (body x)) = []" using Cons.prems by simp
  have b: "filter P (fst (for_each body xs)) = []" using Cons by simp
  show ?case using a b
    by (cases "body x"; cases "for_each body xs") (auto split: option.splits)
qed

lemma camera_frame_no_marker:
  "filter is_marker (fst (camera_frame lib w ps rs zs i)) = []"
  by (simp add: camera_frame_def Let_def split: sum.splits prod.splits)

lemma anchor_body_one_marker:
  "snd (anchor_body lib a) = None \<Longrightarrow> length (filter is_marker (fst (anchor_body lib a))) = 1"
  by (simp add: anchor_body_def Let_def split: sum.splits option.splits)

lemma for_each_count:
  "(\<And>x. snd (body x) = None \<Longrightarrow> length (filter P (fst (body x))) = 1) \<Longrightarrow>
   snd (for_each body xs) = None \<Longrightarrow> length (filter P (fst (for_each body xs))) = length xs"
proof (induction xs)
  case Nil
  show ?case by simp
next
  case (Cons x xs)
  obtain tr r where b: "body x = (tr, r)" by (cases "body x")
  obtain tr' r' where f: "for_each body xs = (tr', r')" by (cases "for_each body xs")
  from Cons.prems(2) b f have r: "r = None" and r': "r' = None"
    by (auto split: option.splits)
  have "length (filter P tr) = 1" using Cons.prems(1) [of x] b r by simp
  moreover have "length (filter P tr') = length xs" using Cons.IH Cons.prems(1) f r' by simp
  ultimately show ?case using b f r by simp
qed

lemma anchor_body_ok:
  assumes "read_vec3 lib (find_elem [DescAny, Child ''position'', Child ''Default'', Child ''p3''] a)
      = Inr (x, y, z)"
    and "find_elem [DescAny, Child ''Name''] a = Some nm" and "text_of nm = Some s"
  shows "anchor_body lib a =
     ([EmptyAdd ''ARROWS'' (scale_vec (x, y, z)), SetName s, PremultiplyMatrixWorld (mToZUp lib),
       DecreaseRotationEulerX (radians 90), SetEmptyDisplaySize 0.1], None)"
  using assms by (simp add: anchor_body_def)

text \<open>
  C1 (as amended). With no camera layer (and readable settings) the import returns
  Cancelled and creates no marker object, however many point layers the document has.
  Marker objects are created only after a camera layer was found and its animation
  imported: an import that finishes has found a camera layer and has created exactly
  one marker per point layer.
\<close>

theorem markers_need_camera:
  "(find_elem [DescAny, Child ''CameraLayer''] doc = None \<and> read_settings lib doc = Inr s \<longrightarrow>
      snd (import_hitfilm_composite lib doc) = Inr CANCELLED \<and>
      filter is_marker (fst (import_hitfilm_composite lib doc)) = []) \<and>
   (snd (import_hitfilm_composite lib doc) = Inr FINISHED \<longrightarrow>
      find_elem [DescAny, Child ''CameraLayer''] doc \<noteq> None \<and>
      length (filter is_marker (fst (import_hitfilm_composite lib doc))) =
        length (findall [DescAny, Child ''PointLayer''] doc))"
proof (intro conjI impI)
  assume h: "find_elem [DescAny, Child ''CameraLayer''] doc = None \<and> read_settings lib doc = Inr s"
  then show "snd (import_hitfilm_composite lib doc) = Inr CANCELLED"
    by (cases s) (simp add: import_hitfilm_composite_def)
  from h show "filter is_marker (fst (import_hitfilm_composite lib doc)) = []"
    by (cases s) (simp add: import_hitfilm_composite_def)
next
  assume fin: "snd (import_hitfilm_composite lib doc) = Inr FINISHED"
  then show "find_elem [DescAny, Child ''CameraLayer''] doc \<noteq> None"
    by (auto simp: import_hitfilm_composite_def Let_def
        split: sum.splits prod.splits option.splits)
  have A: "\<And>w ps rs zs js tr r. for_each (camera_frame lib w ps rs zs) js = (tr, r) \<Longrightarrow>
      filter is_marker tr = []"
  proof -
    fix w ps rs zs js tr r
    assume "for_each (camera_frame lib w ps rs zs) js = (tr, r)"
    then show "filter is_marker tr = []"
      using for_each_filter_none [of is_marker "camera_frame lib w ps rs zs" js]
        camera_frame_no_marker by simp
  qed
  have B: "\<And>xs tr. for_each (anchor_body lib) xs = (tr, None) \<Longrightarrow>
      length (filter is_marker tr) = length xs"
  proof -
    fix xs tr
    assume "for_each (anchor_body lib) xs = (tr, None)"
    then show "length (filter is_marker tr) = length xs"
      using for_each_count [of "anchor_body lib" is_marker xs] anchor_body_one_marker by simp
  qed
  from fin show "length (filter is_marker (fst (import_hitfilm_composite lib doc))) =
        length (findall [DescAny, Child ''PointLayer''] doc)"
    by (auto simp: import_hitfilm_composite_def Let_def A B simp del: findall.simps
        split: sum.splits prod.splits option.splits)
qed

theorem markers_need_camera_witness:
  "find_elem [DescAny, Child ''CameraLayer''] doc_two_anchors = None \<and>
   read_settings example_lib doc_two_anchors = Inr (1920, 1080, 30) \<and>
   snd (import_hitfilm_composite example_lib doc_two_anchors) = Inr CANCELLED \<and>
   filter is_marker (fst (import_hitfilm_composite example_lib doc_two_anchors)) = [] \<and>
   snd (import_hitfilm_composite example_lib doc_full) = Inr FINISHED \<and>
   find_elem [DescAny, Child ''CameraLayer''] doc_full \<noteq> None \<and>
   length (filter is_marker (fst (import_hitfilm_composite example_lib doc_full))) =
     length (findall [DescAny, Child ''PointLayer''] doc_full)"
proof -
  have a: "find_elem [DescAny, Child ''CameraLayer''] doc_two_anchors = None \<and>
      read_settings example_lib doc_two_anchors = Inr (1920, 1080, 30)"
    by (simp add: doc_two_anchors_def example_defs import_defs)
  have b: "snd (import_hitfilm_composite example_lib doc_full) = Inr FINISHED"
    by (simp add: doc_full_def cam_full_def example_defs import_defs upt_rec)
  show ?thesis
    using a b markers_need_camera [of doc_two_anchors example_lib "(1920, 1080, 30)"]
      markers_need_camera [of doc_full example_lib "(1920, 1080, 30)"]
    by simp
qed

text \<open>
  C1 as stated fails: a document with no \<open>CameraLayer\<close> element and two
  \<open>PointLayer\<close> elements is cancelled before the anchors are looked at, so no
  marker is created.
\<close>

theorem no_camera_two_anchors_counterexample:
  "filter (\<lambda>e. tag e = ''CameraLayer'') (iter_all doc_two_anchors) = [] \<and>
   length (filter (\<lambda>e. tag e = ''PointLayer'') (iter_all doc_two_anchors)) = 2 \<and>
   snd (import_hitfilm_composite example_lib doc_two_anchors) = Inr CANCELLED \<and>
   length (filter is_marker (fst (import_hitfilm_composite example_lib doc_two_anchors))) \<noteq> 2"
  by (simp add: doc_two_anchors_def example_defs import_defs)

text \<open>
  C9. With readable settings and no camera layer, the import returns Cancelled after
  the resolution and the frame rate have been written: these three writes are all it
  has done to the scene.
\<close>

theorem cancelled_after_settings:
  "read_settings lib doc = Inr (width, height, frameRate) \<Longrightarrow>
   find_elem [DescAny, Child ''CameraLayer''] doc = None \<Longrightarrow>
   import_hitfilm_composite lib doc =
     ([SetResolutionX width, SetResolutionY height, SetFps frameRate], Inr CANCELLED)"
  by (simp add: import_hitfilm_composite_def)

theorem cancelled_after_settings_witness:
  "read_settings example_lib doc_two_anchors = Inr (1920, 1080, 30) \<and>
   find_elem [DescAny, Child ''CameraLayer''] doc_two_anchors = None \<and>
   import_hitfilm_composite example_lib doc_two_anchors =
     ([SetResolutionX 1920, SetResolutionY 1080, SetFps 30], Inr CANCELLED)"
proof -
  have a: "read_settings example_lib doc_two_anchors = Inr (1920, 1080, 30)"
    by (simp add: doc_two_anchors_def example_defs import_defs)
  have b: "find_elem [DescAny, Child ''CameraLayer''] doc_two_anchors = None"
    by (simp add: doc_two_anchors_def example_defs import_defs)
  show ?thesis
    using a b cancelled_after_settings [OF a b] by simp
qed

text \<open>
  C6. For well-formed point layers, each anchor gives these host calls and no other:
  an empty is added at the position scaled by \<open>(1/1000) * PixelsPerMM\<close> (the factor
  of the camera positions; 1000 becomes 2.8352), it is named, its world matrix is
  multiplied on the left by the basis change used for the camera, and its X Euler
  angle is decreased by 90 degrees.  No Euler matrix is built for an anchor.
\<close>

theorem anchor_transform:
  assumes "list_all2 (well_formed_anchor lib) anchors specs"
  shows "for_each (anchor_body lib) anchors =
     (concat (map (\<lambda>(s, x, y, z).
        [EmptyAdd ''ARROWS''
           ((1 / 1000) * PixelsPerMM * x, (1 / 1000) * PixelsPerMM * y, (1 / 1000) * PixelsPerMM * z),
         SetName s,
         PremultiplyMatrixWorld (to_4x4 (axis_conversion lib ''Z'' ''Y'' ''-Y'' ''Z'')),
         DecreaseRotationEulerX (90 * pi / 180),
         SetEmptyDisplaySize 0.1]) specs), None)
     \<and> (1 / 1000) * PixelsPerMM * 1000 = 2.8352"
proof
  from assms show "for_each (anchor_body lib) anchors =
     (concat (map (\<lambda>(s, x, y, z).
        [EmptyAdd ''ARROWS''
           ((1 / 1000) * PixelsPerMM * x, (1 / 1000) * PixelsPerMM * y, (1 / 1000) * PixelsPerMM * z),
         SetName s,
         PremultiplyMatrixWorld (to_4x4 (axis_conversion lib ''Z'' ''Y'' ''-Y'' ''Z'')),
         DecreaseRotationEulerX (90 * pi / 180),
         SetEmptyDisplaySize 0.1]) specs), None)"
  proof (induction rule: list_all2_induct)
    case Nil
    show ?case by simp
  next
    case (Cons a anchors sv specs)
    obtain s x y z where sv: "sv = (s, x, y, z)" by (cases sv) auto
    from Cons.hyps(1) sv obtain nm where
      "read_vec3 lib (find_elem [DescAny, Child ''position'', Child ''Default'', Child ''p3''] a)
         = Inr (x, y, z)"
      "find_elem [DescAny, Child ''Name''] a = Some nm" "text_of nm = Some s"
      by (auto simp: well_formed_anchor_def)
    then have "anchor_body lib a =
       ([EmptyAdd ''ARROWS'' (scale_vec (x, y, z)), SetName s, PremultiplyMatrixWorld (mToZUp lib),
         DecreaseRotationEulerX (radians 90), SetEmptyDisplaySize 0.1], None)"
      by (rule anchor_body_ok)
    then show ?case
      using Cons.IH sv
      by (simp add: scale_vec_def blenderScale_def mToZUp_def radians_def)
  qed
next
  show "(1 / 1000) * PixelsPerMM * 1000 = 2.8352"
    by (simp add: PixelsPerMM_def)
qed

theorem anchor_transform_witness:
  "list_all2 (well_formed_anchor example_lib)
     (findall [DescAny, Child ''PointLayer''] doc_two_anchors)
     [(''Anchor 1'', 1000, 0, 0), (''Anchor 2'', 0, 500, -250)] \<and>
   for_each (anchor_body example_lib) (findall [DescAny, Child ''PointLayer''] doc_two_anchors) =
     ([EmptyAdd ''ARROWS'' (2.8352, 0, 0), SetName ''Anchor 1'',
       PremultiplyMatrixWorld [[1, 0, 0, 0], [0, 0, -1, 0], [0, 1, 0, 0], [0, 0, 0, 1]],
       DecreaseRotationEulerX (pi / 2), SetEmptyDisplaySize 0.1,
       EmptyAdd ''ARROWS'' (0, 1.4176, - 0.7088), SetName ''Anchor 2'',
       PremultiplyMatrixWorld [[1, 0, 0, 0], [0, 0, -1, 0], [0, 1, 0, 0], [0, 0, 0, 1]],
       DecreaseRotationEulerX (pi / 2), SetEmptyDisplaySize 0.1], None)"
proof -
  have a: "list_all2 (well_formed_anchor example_lib)
     (findall [DescAny, Child ''PointLayer''] doc_two_anchors)
     [(''Anchor 1'', 1000, 0, 0), (''Anchor 2'', 0, 500, -250)]"
    by (simp add: well_formed_anchor_def doc_two_anchors_def example_defs import_defs)
  show ?thesis
    using a anchor_transform [OF a]
    by (simp add: PixelsPerMM_def example_defs to_4x4_def)
qed

subsection \<open>Synchronisation of the channels\<close>

lemma mapE_length: "mapE f xs = Inr ys \<Longrightarrow> length ys = length xs"
  by (induction xs arbitrary: ys) (auto simp: bindE_def split: sum.splits)

lemma mapE_error: "mapE f xs = Inl e \<Longrightarrow> \<exists>x \<in> set xs. f x = Inl e"
  by (induction xs) (auto simp: bindE_def split: sum.splits)

lemma float_of_not_assert: "float_of lib s \<noteq> Inl AssertionError"
  by (simp add: float_of_def split: option.splits)

lemma read_vec3_not_assert: "read_vec3 lib node \<noteq> Inl AssertionError"
  by (auto simp: read_vec3_def read_float_def bindE_def float_of_def split: option.splits sum.splits)

lemma position_key_not_assert: "position_key lib k \<noteq> Inl AssertionError"
  using read_vec3_not_assert [of lib] by (auto simp: position_key_def bindE_def split: sum.splits)

lemma rotation_key_not_assert: "rotation_key lib k \<noteq> Inl AssertionError"
  using read_vec3_not_assert [of lib] by (simp add: rotation_key_def)

lemma zoom_key_not_assert: "zoom_key lib k \<noteq> Inl AssertionError"
  using float_of_not_assert [of lib] by (simp add: zoom_key_def split: option.splits)

lemma mapE_not_assert:
  "(\<And>x. f x \<noteq> Inl AssertionError) \<Longrightarrow> mapE f xs \<noteq> Inl AssertionError"
  using mapE_error [of f xs AssertionError] by auto

lemma parse_camera_Inr:
  assumes "parse_camera lib cam = Inr (tk, ps, rs, zs)"
  shows "agrees_with_position ''orientation'' cam \<and> agrees_with_position ''zoom'' cam \<and>
     length tk = position_count cam \<and> length ps = position_count cam \<and>
     length rs = (case channel_keys ''orientation'' cam of None \<Rightarrow> 0 | Some ks \<Rightarrow> length ks) \<and>
     length zs = (case channel_keys ''zoom'' cam of None \<Rightarrow> 0 | Some ks \<Rightarrow> length ks)"
  using assms
  by (auto simp: parse_camera_def bindE_def Let_def agrees_with_position_def position_count_def
      split: sum.splits option.splits if_splits dest: mapE_length)

lemma parse_camera_assert:
  assumes "parse_camera lib cam = Inl AssertionError"
  shows "\<not> (agrees_with_position ''orientation'' cam \<and> agrees_with_position ''zoom'' cam)"
  using assms mapE_not_assert [of "position_key lib", OF position_key_not_assert]
    mapE_not_assert [of "rotation_key lib", OF rotation_key_not_assert]
    mapE_not_assert [of "zoom_key lib", OF zoom_key_not_assert]
  by (auto simp: parse_camera_def bindE_def Let_def agrees_with_position_def position_count_def
      split: sum.splits option.splits if_splits dest: mapE_length)

lemma is_ok_Inr: "is_ok r \<Longrightarrow> \<exists>v. r = Inr v"
  by (cases r) (simp_all add: is_ok_def)

lemma parse_camera_agree:
  assumes "keys_readable lib cam"
    and "agrees_with_position ''orientation'' cam" and "agrees_with_position ''zoom'' cam"
  shows "\<exists>tk ps rs zs. parse_camera lib cam = Inr (tk, ps, rs, zs)"
proof -
  obtain pos where p: "(case channel_keys ''position'' cam of None \<Rightarrow> Inr []
       | Some posKeys \<Rightarrow> mapE (position_key lib) posKeys) = Inr pos"
    using assms(1) by (auto simp: keys_readable_def split: option.splits dest: is_ok_Inr)
  have n: "length pos = position_count cam"
    using p by (auto simp: position_count_def split: option.splits dest: mapE_length)
  obtain rs where r: "(case channel_keys ''orientation'' cam of None \<Rightarrow> Inr []
       | Some rotationKeys \<Rightarrow>
           if length (map fst pos) = length rotationKeys
           then mapE (rotation_key lib) rotationKeys else Inl AssertionError) = Inr rs"
    using assms(1,2) n
    by (auto simp: keys_readable_def agrees_with_position_def split: option.splits dest: is_ok_Inr)
  obtain zs where z: "(case channel_keys ''zoom'' cam of None \<Rightarrow> Inr []
       | Some zoomKeys \<Rightarrow>
           if length (map fst pos) = length zoomKeys
           then mapE (zoom_key lib) zoomKeys else Inl AssertionError) = Inr zs"
    using assms(1,3) n
    by (auto simp: keys_readable_def agrees_with_position_def split: option.splits dest: is_ok_Inr)
  show ?thesis
    unfolding parse_camera_def by (simp add: p r z bindE_def Let_def)
qed

lemma parse_camera_disagree:
  assumes "keys_readable lib cam"
    and "\<not> (agrees_with_position ''orientation'' cam \<and> agrees_with_position ''zoom'' cam)"
  shows "parse_camera lib cam = Inl AssertionError"
proof -
  obtain pos where p: "(case channel_keys ''position'' cam of None \<Rightarrow> Inr []
       | Some posKeys \<Rightarrow> mapE (position_key lib) posKeys) = Inr pos"
    using assms(1) by (auto simp: keys_readable_def split: option.splits dest: is_ok_Inr)
  have n: "length pos = position_count cam"
    using p by (auto simp: position_count_def split: option.splits dest: mapE_length)
  show ?thesis
  proof (cases "agrees_with_position ''orientation'' cam")
    case False
    then have "(case channel_keys ''orientation'' cam of None \<Rightarrow> Inr []
       | Some rotationKeys \<Rightarrow>
           if length (map fst pos) = length rotationKeys
           then mapE (rotation_key lib) rotationKeys else Inl AssertionError) = Inl AssertionError"
      using n by (auto simp: agrees_with_position_def split: option.splits)
    then show ?thesis
      unfolding parse_camera_def by (simp add: p bindE_def Let_def)
  next
    case True
    then obtain rs where r: "(case channel_keys ''orientation'' cam of None \<Rightarrow> Inr []
       | Some rotationKeys \<Rightarrow>
           if length (map fst pos) = length rotationKeys
           then mapE (rotation_key lib) rotationKeys else Inl AssertionError) = Inr rs"
      using assms(1) n
      by (auto simp: keys_readable_def agrees_with_position_def split: option.splits
          dest: is_ok_Inr)
    from True assms(2) have "\<not> agrees_with_position ''zoom'' cam" by simp
    then have "(case channel_keys ''zoom'' cam of None \<Rightarrow> Inr []
       | Some zoomKeys \<Rightarrow>
           if length (map fst pos) = length zoomKeys
           then mapE (zoom_key lib) zoomKeys else Inl AssertionError) = Inl AssertionError"
      using n by (auto simp: agrees_with_position_def split: option.splits)
    then show ?thesis
      unfolding parse_camera_def by (simp add: p r bindE_def Let_def)
  qed
qed

lemma for_each_no_matrix:
  "(\<And>x. matrix_writes (fst (body x)) = []) \<Longrightarrow> matrix_writes (fst (for_each body xs)) = []"
proof (induction xs)
  case Nil
  show ?case by (simp add: matrix_writes_Nil)
next
  case (Cons x xs)
  have a: "matrix_writes (fst (body x)) = []" using Cons.prems by simp
  have b: "matrix_writes (fst (for_each body xs)) = []" using Cons by simp
  show ?case using a b
    by (cases "body x"; cases "for_each body xs")
      (auto simp: matrix_writes_append split: option.splits)
qed

lemma anchor_body_no_matrix: "matrix_writes (fst (anchor_body lib a)) = []"
  by (simp add: anchor_body_def Let_def matrix_writes_Nil matrix_writes_Cons
      split: sum.splits option.splits prod.splits)

lemma anchors_no_matrix:
  "for_each (anchor_body lib) xs = (tr, r) \<Longrightarrow> matrix_writes tr = []"
  using for_each_no_matrix [of "anchor_body lib" xs] anchor_body_no_matrix by simp

lemma camera_loop_matrix_count:
  assumes "N \<le> length zs" "N \<le> length rs" "N \<le> length ps" "w \<noteq> 0"
    and "for_each (camera_frame lib w ps rs zs) [0..<N] = (tr, r)"
  shows "r = None \<and> length (matrix_writes tr) = N"
  using assms(5) unfolding camera_loop_ok [OF assms(1-4)]
  by (auto simp: matrix_writes_concat_map matrix_writes_Nil matrix_writes_Cons)

text \<open>
  C2 (as amended). An absent channel yields an empty sequence and is not compared with
  anything.  The position channel is the reference: when synchronisation succeeds, every
  present rotation or zoom channel has exactly as many keys as the position channel
  (none when the position channel is absent), and the length-mismatch error is raised
  only when a present rotation or zoom channel has another number of keys.  So zoom
  absent with a position channel of any length passes the checks, and a non-empty
  rotation channel with the position channel absent does not.
\<close>

theorem sync_lengths:
  "(parse_camera lib cam = Inr (tk, ps, rs, zs) \<longrightarrow>
      agrees_with_position ''orientation'' cam \<and> agrees_with_position ''zoom'' cam \<and>
      length tk = position_count cam \<and> length ps = position_count cam \<and>
      length rs = (case channel_keys ''orientation'' cam of None \<Rightarrow> 0 | Some ks \<Rightarrow> length ks) \<and>
      length zs = (case channel_keys ''zoom'' cam of None \<Rightarrow> 0 | Some ks \<Rightarrow> length ks)) \<and>
   (parse_camera lib cam = Inl AssertionError \<longrightarrow>
      \<not> (agrees_with_position ''orientation'' cam \<and> agrees_with_position ''zoom'' cam))"
  using parse_camera_Inr [of lib cam tk ps rs zs] parse_camera_assert [of lib cam] by blast

theorem sync_lengths_witness:
  "parse_camera example_lib cam_no_zoom = Inr ([Some ''0''], [(1000, 0, 0)], [(0, 0, 0)], []) \<and>
   channel_keys ''zoom'' cam_no_zoom = None \<and>
   agrees_with_position ''orientation'' cam_no_zoom \<and> agrees_with_position ''zoom'' cam_no_zoom \<and>
   position_count cam_no_zoom = 1 \<and>
   parse_camera example_lib cam_short_zoom = Inl AssertionError \<and>
   \<not> (agrees_with_position ''orientation'' cam_short_zoom \<and>
      agrees_with_position ''zoom'' cam_short_zoom)"
proof -
  have a: "parse_camera example_lib cam_no_zoom =
      Inr ([Some ''0''], [(1000, 0, 0)], [(0, 0, 0)], [])"
    by (simp add: cam_no_zoom_def example_defs import_defs)
  have b: "parse_camera example_lib cam_short_zoom = Inl AssertionError"
    by (simp add: cam_short_zoom_def example_defs import_defs)
  have c: "channel_keys ''zoom'' cam_no_zoom = None"
    by (simp add: cam_no_zoom_def example_defs import_defs)
  show ?thesis
    using a b c
      sync_lengths [of example_lib cam_no_zoom "[Some ''0'']" "[(1000, 0, 0)]" "[(0, 0, 0)]" "[]"]
      sync_lengths [of example_lib cam_short_zoom]
    by simp
qed

text \<open>
  C2 as stated fails: with the position channel absent and one rotation key, the length
  check of the rotation channel compares 1 with the 0 time keys recorded so far.
\<close>

theorem rotation_without_position_counterexample:
  "channel_keys ''position'' cam_rotation_only = None \<and>
   map_option length (channel_keys ''orientation'' cam_rotation_only) = Some 1 \<and>
   channel_keys ''zoom'' cam_rotation_only = None \<and>
   parse_camera example_lib cam_rotation_only = Inl AssertionError"
  by (simp add: cam_rotation_only_def example_defs import_defs)

text \<open>
  C4 (as amended). For a camera whose keys are all readable: when every present
  rotation and zoom channel has as many keys as the position channel, the end frame of
  the scene is set to that number \<open>N\<close>, and when moreover both channels are present
  (and the width is not zero) the loop writes exactly \<open>N\<close> camera frames; when a
  present rotation or zoom channel has another number of keys than the position channel
  (lengths 5, 5, 4), the import fails with an assertion error after the settings were
  written.
\<close>

theorem frame_count:
  assumes "read_settings lib doc = Inr (w, h, f)"
    and "find_elem [DescAny, Child ''CameraLayer''] doc = Some cam"
    and "keys_readable lib cam"
  shows "(agrees_with_position ''orientation'' cam \<and> agrees_with_position ''zoom'' cam \<longrightarrow>
       take 4 (fst (import_hitfilm_composite lib doc)) =
         [SetResolutionX w, SetResolutionY h, SetFps f, SetFrameEnd (position_count cam)] \<and>
       (channel_keys ''orientation'' cam \<noteq> None \<and> channel_keys ''zoom'' cam \<noteq> None \<and> w \<noteq> 0
          \<longrightarrow> length (matrix_writes (fst (import_hitfilm_composite lib doc))) =
                position_count cam)) \<and>
     (\<not> (agrees_with_position ''orientation'' cam \<and> agrees_with_position ''zoom'' cam) \<longrightarrow>
       import_hitfilm_composite lib doc =
         ([SetResolutionX w, SetResolutionY h, SetFps f], Inl AssertionError))"
proof (intro conjI impI)
  assume ag: "agrees_with_position ''orientation'' cam \<and> agrees_with_position ''zoom'' cam"
  then obtain tk ps rs zs where pc: "parse_camera lib cam = Inr (tk, ps, rs, zs)"
    using parse_camera_agree [OF assms(3)] by blast
  note len = parse_camera_Inr [OF pc]
  show "take 4 (fst (import_hitfilm_composite lib doc)) =
         [SetResolutionX w, SetResolutionY h, SetFps f, SetFrameEnd (position_count cam)]"
    using assms(1,2) pc len
    by (auto simp: import_hitfilm_composite_def Let_def simp del: findall.simps
        split: prod.splits option.splits)
  assume pres: "channel_keys ''orientation'' cam \<noteq> None \<and> channel_keys ''zoom'' cam \<noteq> None \<and>
      w \<noteq> 0"
  have l: "length tk \<le> length zs" "length tk \<le> length rs" "length tk \<le> length ps" "w \<noteq> 0"
    using len pres ag by (auto simp: agrees_with_position_def split: option.splits)
  obtain tr3 r3 where c: "for_each (camera_frame lib w ps rs zs) [0..<length tk] = (tr3, r3)"
    by (cases "for_each (camera_frame lib w ps rs zs) [0..<length tk]")
  have c3: "r3 = None \<and> length (matrix_writes tr3) = length tk"
    using camera_loop_matrix_count [OF l c] .
  obtain tr5 r5 where a: "for_each (anchor_body lib) (findall [DescAny, Child ''PointLayer''] doc)
      = (tr5, r5)"
    by (cases "for_each (anchor_body lib) (findall [DescAny, Child ''PointLayer''] doc)")
  have a5: "matrix_writes tr5 = []"
    using anchors_no_matrix [OF a] .
  show "length (matrix_writes (fst (import_hitfilm_composite lib doc))) = position_count cam"
    using assms(1,2) pc c c3 a a5 len
    by (auto simp: import_hitfilm_composite_def Let_def matrix_writes_append matrix_writes_Cons
        matrix_writes_Nil simp del: findall.simps split: option.splits)
next
  assume "\<not> (agrees_with_position ''orientation'' cam \<and> agrees_with_position ''zoom'' cam)"
  then have "parse_camera lib cam = Inl AssertionError"
    using parse_camera_disagree [OF assms(3)] by blast
  then show "import_hitfilm_composite lib doc =
         ([SetResolutionX w, SetResolutionY h, SetFps f], Inl AssertionError)"
    using assms(1,2) by (simp add: import_hitfilm_composite_def)
qed

theorem frame_count_witness:
  "read_settings example_lib doc_full = Inr (1920, 1080, 30) \<and>
   find_elem [DescAny, Child ''CameraLayer''] doc_full = Some cam_full \<and>
   keys_readable example_lib cam_full \<and>
   agrees_with_position ''orientation'' cam_full \<and> agrees_with_position ''zoom'' cam_full \<and>
   position_count cam_full = 2 \<and>
   take 4 (fst (import_hitfilm_composite example_lib doc_full)) =
     [SetResolutionX 1920, SetResolutionY 1080, SetFps 30, SetFrameEnd 2] \<and>
   length (matrix_writes (fst (import_hitfilm_composite example_lib doc_full))) = 2 \<and>
   read_settings example_lib doc_short_zoom = Inr (1920, 1080, 30) \<and>
   find_elem [DescAny, Child ''CameraLayer''] doc_short_zoom = Some cam_short_zoom \<and>
   keys_readable example_lib cam_short_zoom \<and>
   \<not> agrees_with_position ''zoom'' cam_short_zoom \<and>
   import_hitfilm_composite example_lib doc_short_zoom =
     ([SetResolutionX 1920, SetResolutionY 1080, SetFps 30], Inl AssertionError)"
proof -
  have s1: "read_settings example_lib doc_full = Inr (1920, 1080, 30)"
    by (simp add: doc_full_def example_defs import_defs)
  have c1: "find_elem [DescAny, Child ''CameraLayer''] doc_full = Some cam_full"
    by (simp add: doc_full_def cam_full_def example_defs import_defs)
  have k1: "keys_readable example_lib cam_full"
    by (simp add: cam_full_def keys_readable_def is_ok_def example_defs import_defs)
  have g1: "agrees_with_position ''orientation'' cam_full \<and>
      agrees_with_position ''zoom'' cam_full \<and>
      channel_keys ''orientation'' cam_full \<noteq> None \<and> channel_keys ''zoom'' cam_full \<noteq> None \<and>
      position_count cam_full = 2"
    by (simp add: cam_full_def agrees_with_position_def position_count_def
        example_defs import_defs)
  have s2: "read_settings example_lib doc_short_zoom = Inr (1920, 1080, 30)"
    by (simp add: doc_short_zoom_def example_defs import_defs)
  have c2: "find_elem [DescAny, Child ''CameraLayer''] doc_short_zoom = Some cam_short_zoom"
    by (simp add: doc_short_zoom_def cam_short_zoom_def example_defs import_defs)
  have k2: "keys_readable example_lib cam_short_zoom"
    by (simp add: cam_short_zoom_def keys_readable_def is_ok_def example_defs import_defs)
  have g2: "\<not> agrees_with_position ''zoom'' cam_short_zoom"
    by (simp add: cam_short_zoom_def agrees_with_position_def position_count_def
        example_defs import_defs)
  show ?thesis
    using s1 c1 k1 g1 s2 c2 k2 g2 frame_count [OF s1 c1 k1] frame_count [OF s2 c2 k2]
    by simp
qed

text \<open>
  C4 as stated fails: with the position channel absent and two rotation keys and two
  zoom keys, all non-empty channels have the same length 2, and the import fails with
  an assertion error instead of producing two frames.
\<close>

theorem equal_channels_without_position_counterexample:
  "channel_keys ''position'' cam_no_position = None \<and>
   map_option length (channel_keys ''orientation'' cam_no_position) = Some 2 \<and>
   map_option length (channel_keys ''zoom'' cam_no_position) = Some 2 \<and>
   import_hitfilm_composite example_lib doc_no_position =
     ([SetResolutionX 1920, SetResolutionY 1080, SetFps 30], Inl AssertionError)"
  by (simp add: doc_no_position_def cam_no_position_def example_defs import_defs)

subsection \<open>The \<open>Time\<close> attribute\<close>

lemma tag_blank: "tag (blank_time e) = tag e"
  by (cases e) simp

lemma text_blank: "text_of (blank_time e) = text_of e"
  by (cases e) simp

lemma children_blank: "children (blank_time e) = map blank_time (children e)"
  by (cases e) simp

lemma map_of_blank: "k \<noteq> ''Time'' \<Longrightarrow> map_of (map blank_attr a) k = map_of a k"
  by (induction a) (auto simp: blank_attr_def)

lemma get_attr_blank: "k \<noteq> ''Time'' \<Longrightarrow> get_attr (blank_time e) k = get_attr e k"
  by (cases e) (simp add: get_attr_def map_of_blank)

lemma iter_all_blank: "iter_all (blank_time e) = map blank_time (iter_all e)"
proof (induction e rule: iter_all.induct)
  case (1 t a x cs)
  have "concat (map iter_all (map blank_time cs)) = concat (map (\<lambda>c. map blank_time (iter_all c)) cs)"
    using 1 by (simp add: map_concat comp_def cong: map_cong)
  then show ?case
    by (simp add: map_concat comp_def)
qed

lemma select_step_blank: "select_step s (blank_time e) = map blank_time (select_step s e)"
proof (cases s)
  case DescAny
  then show ?thesis
    by (simp add: children_blank iter_all_blank map_concat comp_def)
next
  case (Child t)
  then show ?thesis
    by (simp add: children_blank filter_map comp_def tag_blank)
qed

lemma findall_blank: "findall p (blank_time e) = map blank_time (findall p e)"
proof (induction p arbitrary: e)
  case Nil
  show ?case by simp
next
  case (Cons s ss)
  show ?case
    by (simp add: select_step_blank Cons map_concat comp_def)
qed

lemma find_elem_blank: "find_elem p (blank_time e) = map_option blank_time (find_elem p e)"
  by (simp add: find_elem_def findall_blank split: list.splits)

lemma read_float_blank:
  "k \<noteq> ''Time'' \<Longrightarrow> read_float lib (map_option blank_time n) k = read_float lib n k"
  by (cases n) (simp_all add: read_float_def get_attr_blank)

lemma read_vec3_blank: "read_vec3 lib (map_option blank_time n) = read_vec3 lib n"
  by (simp add: read_vec3_def read_float_blank)

lemma read_int_child_blank:
  "read_int_child lib (map_option blank_time n) t = read_int_child lib n t"
  by (cases n) (auto simp: read_int_child_def find_elem_blank text_blank split: option.splits)

lemma read_settings_blank: "read_settings lib (blank_time d) = read_settings lib d"
  by (simp add: read_settings_def find_elem_blank read_int_child_blank Let_def)

lemma channel_keys_blank:
  "channel_keys nm (blank_time cam) = map_option (map blank_time) (channel_keys nm cam)"
  by (simp add: channel_keys_def findall_blank children_blank del: findall.simps split: list.splits)

lemma rotation_key_blank: "rotation_key lib (blank_time k) = rotation_key lib k"
  by (simp add: rotation_key_def find_elem_blank read_vec3_blank)

lemma zoom_key_blank: "zoom_key lib (blank_time k) = zoom_key lib k"
  by (auto simp: zoom_key_def find_elem_blank text_blank split: option.splits)

lemma anchor_body_blank: "anchor_body lib (blank_time a) = anchor_body lib a"
  by (auto simp: anchor_body_def find_elem_blank read_vec3_blank text_blank Let_def
      split: option.splits sum.splits)

lemma mapE_map: "mapE f (map g xs) = mapE (\<lambda>x. f (g x)) xs"
  by (induction xs) simp_all

lemma for_each_map: "for_each body (map g xs) = for_each (\<lambda>x. body (g x)) xs"
  by (induction xs) simp_all

lemma position_key_blank:
  "position_key lib (blank_time k) =
     (case position_key lib k of
        Inl e \<Rightarrow> Inl e
      | Inr tp \<Rightarrow> Inr (get_attr (blank_time k) ''Time'', snd tp))"
  by (simp add: position_key_def find_elem_blank read_vec3_blank bindE_def split: sum.splits)

lemma position_keys_blank:
  "mapE (position_key lib) (map blank_time ks) =
     (case mapE (position_key lib) ks of
        Inl e \<Rightarrow> Inl e
      | Inr pos \<Rightarrow> Inr (zip (map (\<lambda>k. get_attr (blank_time k) ''Time'') ks) (map snd pos)))"
proof (induction ks)
  case Nil
  show ?case by simp
next
  case (Cons k ks)
  show ?case
    by (simp add: Cons position_key_blank bindE_def split: sum.splits)
qed

lemma positions_blank:
  "(case channel_keys ''position'' (blank_time cam) of
      None \<Rightarrow> Inr [] | Some posKeys \<Rightarrow> mapE (position_key lib) posKeys) = r' \<Longrightarrow>
   (case channel_keys ''position'' cam of
      None \<Rightarrow> Inr [] | Some posKeys \<Rightarrow> mapE (position_key lib) posKeys) = r \<Longrightarrow>
   (case r of Inl e \<Rightarrow> r' = Inl e
    | Inr pos \<Rightarrow> \<exists>pos'. r' = Inr pos' \<and> length pos' = length pos \<and> map snd pos' = map snd pos)"
  by (auto simp: channel_keys_blank position_keys_blank
      split: option.splits sum.splits dest: mapE_length)

lemma rotations_blank:
  "(case channel_keys ''orientation'' (blank_time cam) of
      None \<Rightarrow> Inr []
    | Some ks \<Rightarrow> if n = length ks then mapE (rotation_key lib) ks else Inl AssertionError) =
   (case channel_keys ''orientation'' cam of
      None \<Rightarrow> Inr []
    | Some ks \<Rightarrow> if n = length ks then mapE (rotation_key lib) ks else Inl AssertionError)"
  by (simp add: channel_keys_blank mapE_map rotation_key_blank split: option.splits)

lemma zooms_blank:
  "(case channel_keys ''zoom'' (blank_time cam) of
      None \<Rightarrow> Inr []
    | Some ks \<Rightarrow> if n = length ks then mapE (zoom_key lib) ks else Inl AssertionError) =
   (case channel_keys ''zoom'' cam of
      None \<Rightarrow> Inr []
    | Some ks \<Rightarrow> if n = length ks then mapE (zoom_key lib) ks else Inl AssertionError)"
  by (simp add: channel_keys_blank mapE_map zoom_key_blank split: option.splits)

lemma parse_camera_blank:
  "(case parse_camera lib cam of
      Inl e \<Rightarrow> parse_camera lib (blank_time cam) = Inl e
    | Inr (tk, ps, rs, zs) \<Rightarrow>
        \<exists>tk'. length tk' = length tk \<and> parse_camera lib (blank_time cam) = Inr (tk', ps, rs, zs))"
proof -
  define r where "r = (case channel_keys ''position'' cam of
      None \<Rightarrow> Inr [] | Some posKeys \<Rightarrow> mapE (position_key lib) posKeys)"
  define r' where "r' = (case channel_keys ''position'' (blank_time cam) of
      None \<Rightarrow> Inr [] | Some posKeys \<Rightarrow> mapE (position_key lib) posKeys)"
  have rel: "(case r of Inl e \<Rightarrow> r' = Inl e
    | Inr pos \<Rightarrow> \<exists>pos'. r' = Inr pos' \<and> length pos' = length pos \<and> map snd pos' = map snd pos)"
    using positions_blank [OF r'_def [symmetric] r_def [symmetric]] .
  show ?thesis
  proof (cases r)
    case (Inl e)
    then have "r' = Inl e" using rel by simp
    then show ?thesis
      using Inl unfolding parse_camera_def r_def [symmetric] r'_def [symmetric]
      by (simp add: bindE_def)
  next
    case (Inr pos)
    then obtain pos' where p': "r' = Inr pos'" "length pos' = length pos"
        "map snd pos' = map snd pos"
      using rel by auto
    have l: "length (map fst pos') = length (map fst pos)"
      using p'(2) by simp
    have "parse_camera lib (blank_time cam) =
        (case parse_camera lib cam of
           Inl e \<Rightarrow> Inl e
         | Inr (tk, ps, rs, zs) \<Rightarrow> Inr (map fst pos', ps, rs, zs))"
      unfolding parse_camera_def r_def [symmetric] r'_def [symmetric] Inr p'(1) bindE_def Let_def
        sum.case rotations_blank zooms_blank l p'(3)
      by (simp split: sum.splits)
    moreover have "\<And>tk ps rs zs. parse_camera lib cam = Inr (tk, ps, rs, zs) \<Longrightarrow>
        length tk = length pos"
      unfolding parse_camera_def r_def [symmetric] Inr
      by (auto simp: bindE_def Let_def split: sum.splits)
    ultimately show ?thesis
      using p'(2) by (auto split: sum.splits)
  qed
qed

lemma import_blank:
  "import_hitfilm_composite lib (blank_time d) = import_hitfilm_composite lib d"
proof (cases "read_settings lib d")
  case (Inl e)
  then show ?thesis
    by (simp add: import_hitfilm_composite_def read_settings_blank)
next
  case (Inr whf)
  obtain w h f where whf: "whf = (w, h, f)" by (cases whf) auto
  have anchors: "for_each (anchor_body lib) (findall [DescAny, Child ''PointLayer''] (blank_time d)) =
      for_each (anchor_body lib) (findall [DescAny, Child ''PointLayer''] d)"
    by (simp add: findall_blank for_each_map anchor_body_blank del: findall.simps)
  show ?thesis
  proof (cases "find_elem [DescAny, Child ''CameraLayer''] d")
    case None
    then show ?thesis
      using Inr whf
      by (simp add: import_hitfilm_composite_def read_settings_blank find_elem_blank)
  next
    case (Some cam)
    show ?thesis
    proof (cases "parse_camera lib cam")
      case (Inl e)
      then have "parse_camera lib (blank_time cam) = Inl e"
        using parse_camera_blank [of lib cam] by simp
      then show ?thesis
        using Some Inl Inr whf
        by (simp add: import_hitfilm_composite_def read_settings_blank find_elem_blank)
    next
      case res: (Inr res)
      obtain tk ps rs zs where r: "res = (tk, ps, rs, zs)" by (cases res) auto
      then obtain tk' where "length tk' = length tk"
          "parse_camera lib (blank_time cam) = Inr (tk', ps, rs, zs)"
        using parse_camera_blank [of lib cam] res by auto
      then show ?thesis
        using Some Inr whf res r anchors
        by (simp add: import_hitfilm_composite_def read_settings_blank find_elem_blank
            del: findall.simps)
    qed
  qed
qed

text \<open>
  C10. Two documents that differ only in the values of \<open>Time\<close> attributes (they are
  equal once these values are erased) give the same host calls and the same result:
  the import only counts the time keys and writes the keyframes at the indices
  \<open>0..N-1\<close>.
\<close>

theorem time_values_unused:
  "blank_time d1 = blank_time d2 \<Longrightarrow>
   import_hitfilm_composite lib d1 = import_hitfilm_composite lib d2"
  using import_blank [of lib d1] import_blank [of lib d2] by simp

theorem time_values_unused_witness:
  "blank_time doc_full = blank_time doc_full_retimed \<and> doc_full \<noteq> doc_full_retimed \<and>
   import_hitfilm_composite example_lib doc_full =
     import_hitfilm_composite example_lib doc_full_retimed"
proof -
  have a: "blank_time doc_full = blank_time doc_full_retimed"
    by (simp add: doc_full_def cam_full_def doc_full_retimed_def example_defs blank_attr_def)
  have b: "doc_full \<noteq> doc_full_retimed"
    by (simp add: doc_full_def cam_full_def doc_full_retimed_def example_defs)
  show ?thesis
    using a b time_values_unused [OF a, of example_lib] by simp
qed

end
